theory Spec2Isabelle
  imports Complex_Main
begin

section \<open>Python values and exceptions\<close>

text \<open>
  The exceptions the script raises itself (\<open>ValueError\<close>, \<open>RuntimeError\<close>,
  \<open>TimeoutError\<close>) and the ones its library calls raise on the script's own data
  (\<open>AttributeError\<close> of a \<open>.get\<close> on a value that is no dict, \<open>KeyError\<close> of a
  subscript on a dict without the key, \<open>OverflowError\<close> of date arithmetic,
  \<open>UnicodeEncodeError\<close> of a \<open>print\<close> of text that standard output cannot encode,
  whatever \<open>time.sleep\<close> raises on a duration it refuses). A failure of the network
  layer (transport error, HTTP status, undecodable body) is a \<open>RequestException\<close>.
  Each carries its message.
\<close>

datatype py_error =
    ValueError string
  | RuntimeError string
  | TimeoutError string
  | AttributeError string
  | KeyError string
  | OverflowError string
  | UnicodeEncodeError string
  | RequestException string

section \<open>Dates\<close>

text \<open>
  A \<open>datetime.date\<close> is modelled by its proleptic Gregorian ordinal
  (\<open>date.toordinal()\<close>): \<open>date.min\<close> = 0001-01-01 is day 1 and \<open>date.max\<close> = 9999-12-31 is
  day 3652059. Comparison of dates is comparison of ordinals; a \<open>timedelta\<close> of whole days
  is its number of days. \<open>date + timedelta\<close> raises \<open>OverflowError\<close> when the result leaves
  the range of the type.
\<close>

type_synonym date = int

definition MINORDINAL :: int where
  "MINORDINAL = 1"

definition MAXORDINAL :: int where
  "MAXORDINAL = 3652059"

definition valid_date :: "date \<Rightarrow> bool" where
  "valid_date d = (MINORDINAL \<le> d \<and> d \<le> MAXORDINAL)"

definition date_add :: "date \<Rightarrow> int \<Rightarrow> py_error + date" where
  "date_add d days =
     (let o' = d + days in
      if 0 < o' \<and> o' \<le> MAXORDINAL then Inr o'
      else Inl (OverflowError ''date value out of range''))"

section \<open>The date windower\<close>

definition MAX_WINDOW_DAYS :: int where
  "MAX_WINDOW_DAYS = 180"

text \<open>
  \<open>date_iteration_windows\<close> is a generator. Its model returns the windows it yields, in
  order, and how it ends: \<open>None\<close> when the loop condition fails (the generator is
  exhausted), \<open>Some e\<close> when resuming it raises \<open>e\<close>. The windows yielded before an
  exception were really handed to the consumer, so they stay in the list.
\<close>

function windows_from :: "date \<Rightarrow> date \<Rightarrow> (date \<times> date) list \<times> py_error option" where
  "windows_from current end_date =
     (if current \<le> end_date then
        (case date_add current (MAX_WINDOW_DAYS - 1) of
           Inl e \<Rightarrow> ([], Some e)
         | Inr upper \<Rightarrow>
             (let window_end = min upper end_date in
              case date_add window_end 1 of
                Inl e \<Rightarrow> ([(current, window_end)], Some e)
              | Inr next_current \<Rightarrow>
                  (case windows_from next_current end_date of
                     (ws, r) \<Rightarrow> ((current, window_end) # ws, r))))
      else ([], None))"
  by pat_completeness auto
termination
proof (relation "measure (\<lambda>(current, end_date). nat (end_date + 1 - current))")
  show "wf (measure (\<lambda>(current, end_date). nat (end_date + 1 - current)))"
    by simp
next
  fix current end_date :: int and upper window_end next_current :: int
  assume le: "current \<le> end_date"
    and up: "date_add current (MAX_WINDOW_DAYS - 1) = Inr upper"
    and we: "window_end = min upper end_date"
    and nx: "date_add window_end 1 = Inr next_current"
  from up have "upper = current + 179"
    by (simp add: date_add_def MAX_WINDOW_DAYS_def Let_def split: if_splits)
  moreover from nx have "next_current = window_end + 1"
    by (simp add: date_add_def Let_def split: if_splits)
  ultimately have "current < next_current" "next_current \<le> end_date + 1"
    using le we by simp_all
  then show "((next_current, end_date), (current, end_date))
      \<in> measure (\<lambda>(current, end_date). nat (end_date + 1 - current))"
    by simp
qed

declare windows_from.simps [simp del]

definition date_iteration_windows :: "date \<Rightarrow> date \<Rightarrow> (date \<times> date) list \<times> py_error option" where
  "date_iteration_windows start_date end_date = windows_from start_date end_date"

text \<open>
  \<open>tiles s ws e\<close>: the windows \<open>ws\<close>, read left to right, start at \<open>s\<close>, each begins the
  day after its predecessor ends, none is empty or longer than the maximum span, and the
  last one ends at \<open>e\<close>. It is the invariant of the loop above and serves the proofs only.
\<close>

fun tiles :: "date \<Rightarrow> (date \<times> date) list \<Rightarrow> date \<Rightarrow> bool" where
  "tiles s [] e = (s = e + 1)"
| "tiles s ((a, b) # ws) e =
     (a = s \<and> a \<le> b \<and> b - a + 1 \<le> MAX_WINDOW_DAYS \<and> b \<le> e \<and> tiles (b + 1) ws e)"

section \<open>Parsed JSON\<close>

text \<open>
  What \<open>resp.json()\<close> returns: \<open>None\<close>, a bool, an int, a float, a str, a list or a dict
  with string keys. A dict is an association list in insertion order, looked up with
  \<open>map_of\<close>. A float is a real, an infinity or NaN (the decoder accepts all three).

  A \<open>str\<close> is a \<open>string\<close>: ASCII text is written as it is, and any other code point is
  carried by characters beyond ASCII (its UTF-8 bytes; a lone surrogate, which the
  decoder accepts in a JSON string, by the three bytes starting \<open>0xED\<close>).
\<close>

datatype pyfloat = Finite real | Infinity bool | NaN

datatype json =
    JNull
  | JBool bool
  | JInt int
  | JFloat pyfloat
  | JStr string
  | JList "json list"
  | JObj "(string \<times> json) list"

text \<open>Python's truth value of a parsed JSON value, as \<open>or\<close> and \<open>not\<close> test it.\<close>

fun truthy :: "json \<Rightarrow> bool" where
  "truthy JNull = False"
| "truthy (JBool b) = b"
| "truthy (JInt n) = (n \<noteq> 0)"
| "truthy (JFloat (Finite r)) = (r \<noteq> 0)"
| "truthy (JFloat (Infinity _)) = True"
| "truthy (JFloat NaN) = True"
| "truthy (JStr s) = (s \<noteq> [])"
| "truthy (JList xs) = (xs \<noteq> [])"
| "truthy (JObj kvs) = (kvs \<noteq> [])"

fun type_name :: "json \<Rightarrow> string" where
  "type_name JNull = ''NoneType''"
| "type_name (JBool _) = ''bool''"
| "type_name (JInt _) = ''int''"
| "type_name (JFloat _) = ''float''"
| "type_name (JStr _) = ''str''"
| "type_name (JList _) = ''list''"
| "type_name (JObj _) = ''dict''"

text \<open>
  \<open>v.get(key, default)\<close>: a dict answers with the value or the default; any other value
  has no \<open>get\<close> attribute and the call raises \<open>AttributeError\<close>.
\<close>

fun py_get :: "json \<Rightarrow> string \<Rightarrow> json \<Rightarrow> py_error + json" where
  "py_get (JObj kvs) key dflt = Inr (case map_of kvs key of Some v \<Rightarrow> v | None \<Rightarrow> dflt)"
| "py_get v key dflt =
     Inl (AttributeError ([CHR 0x27] @ type_name v @ [CHR 0x27] @
            '' object has no attribute '' @ [CHR 0x27] @ ''get'' @ [CHR 0x27]))"

text \<open>\<open>d[key] = value\<close> on a dict: the key keeps its place when present, else goes last.\<close>

fun dict_set :: "('k \<times> 'v) list \<Rightarrow> 'k \<Rightarrow> 'v \<Rightarrow> ('k \<times> 'v) list" where
  "dict_set [] key v = [(key, v)]"
| "dict_set ((k, x) # kvs) key v =
     (if k = key then (key, v) # kvs else (k, x) # dict_set kvs key v)"

section \<open>Library and world\<close>

text \<open>Decimal rendering of an int, as \<open>str\<close> and an f-string produce it.\<close>

fun str_nat :: "nat \<Rightarrow> string" where
  "str_nat n =
     (if n < 10 then [''0123456789'' ! n]
      else str_nat (n div 10) @ [''0123456789'' ! (n mod 10)])"

declare str_nat.simps [simp del]

definition str_int :: "int \<Rightarrow> string" where
  "str_int i = (if i < 0 then CHR ''-'' # str_nat (nat (- i)) else str_nat (nat i))"

text \<open>
  The library functions the script calls and whose results it only passes on. They are
  parameters of the model: \<open>py_repr\<close> is \<open>repr\<close> on floats, lists and dicts,
  \<open>json_dumps\<close> is \<open>json.dumps\<close>, \<open>json_dump_indent n\<close> is the text \<open>json.dump\<close> writes
  with \<open>indent=n\<close>, \<open>strftime\<close> and \<open>isoformat\<close> render a date, \<open>fromisoformat\<close> parses
  one or raises \<open>ValueError\<close>, \<open>sleep_error secs\<close> is the exception \<open>time.sleep(secs)\<close>
  raises, if any (CPython refuses a negative duration with \<open>ValueError\<close> and one beyond
  the platform's clock range with \<open>OverflowError\<close>), and \<open>stdout_error text\<close> is the
  exception the encoder of standard output raises on text beyond ASCII, if any (UTF-8
  refuses a lone surrogate, an ASCII console every such text).
\<close>

record pylib =
  py_repr :: "json \<Rightarrow> string"
  json_dumps :: "json \<Rightarrow> string"
  json_dump_indent :: "nat \<Rightarrow> json \<Rightarrow> string"
  strftime :: "date \<Rightarrow> string \<Rightarrow> string"
  isoformat :: "date \<Rightarrow> string"
  fromisoformat :: "string \<Rightarrow> py_error + date"
  sleep_error :: "real \<Rightarrow> py_error option"
  stdout_error :: "string \<Rightarrow> py_error option"

text \<open>\<open>str(v)\<close>, which is what \<open>{v}\<close> in an f-string inserts.\<close>

fun py_str :: "pylib \<Rightarrow> json \<Rightarrow> string" where
  "py_str L JNull = ''None''"
| "py_str L (JBool b) = (if b then ''True'' else ''False'')"
| "py_str L (JInt n) = str_int n"
| "py_str L (JStr s) = s"
| "py_str L v = py_repr L v"

text \<open>
  Everything the script does to the outside is an event of the trace, in program order.
  \<open>json.dump\<close> escapes every code point beyond ASCII (\<open>ensure_ascii\<close> is left on)
  and the file is opened as UTF-8 under a name made of two rendered dates, so no data of
  the run makes the write raise: it is an event. A file system that refuses the file is
  outside the model.
\<close>

datatype event =
    SessionCreated
  | HttpPost string "(string \<times> string) list"
  | HttpGet string
  | Print string
  | Sleep real
  | FileWrite string string

text \<open>
  The world: today's date, the network, and the trace so far. \<open>http w n\<close> is the outcome
  of the \<open>n\<close>-th HTTP exchange of the run (counted from 0), after
  \<open>raise_for_status()\<close> and \<open>resp.json()\<close>: the parsed body, or the exception one of the
  three steps raised.
\<close>

record world =
  today :: date
  http :: "nat \<Rightarrow> py_error + json"
  http_calls :: nat
  trace :: "event list"

definition emit :: "event \<Rightarrow> world \<Rightarrow> world" where
  "emit ev w = w\<lparr>trace := trace w @ [ev]\<rparr>"

text \<open>
  \<open>print(line)\<close>. Every encoding of standard output contains ASCII, so a line of ASCII
  text is always written; for any other line the encoder decides, and when it raises
  nothing of the line is written.
\<close>

definition ascii_text :: "string \<Rightarrow> bool" where
  "ascii_text s = list_all (\<lambda>c. \<not> digit7 c) s"

definition print_error :: "pylib \<Rightarrow> string \<Rightarrow> py_error option" where
  "print_error L line = (if ascii_text line then None else stdout_error L line)"

definition print :: "pylib \<Rightarrow> string \<Rightarrow> world \<Rightarrow> (py_error + unit) \<times> world" where
  "print L line w =
     (case print_error L line of
        Some e \<Rightarrow> (Inl e, w)
      | None \<Rightarrow> (Inr (), emit (Print line) w))"

definition exchange :: "event \<Rightarrow> world \<Rightarrow> (py_error + json) \<times> world" where
  "exchange request w =
     (http w (http_calls w), emit request (w\<lparr>http_calls := Suc (http_calls w)\<rparr>))"

definition time_sleep :: "pylib \<Rightarrow> real \<Rightarrow> world \<Rightarrow> (py_error + unit) \<times> world" where
  "time_sleep L secs w =
     (case sleep_error L secs of
        Some e \<Rightarrow> (Inl e, w)
      | None \<Rightarrow> (Inr (), emit (Sleep secs) w))"

definition events_since :: "world \<Rightarrow> world \<Rightarrow> event list" where
  "events_since w w' = drop (length (trace w)) (trace w')"


section \<open>The script\<close>

definition BASE_URL :: string where
  "BASE_URL = ''https://api.veracode.com/appsec/v1/analytics/report''"

definition DEFAULT_POLL_INTERVAL :: real where
  "DEFAULT_POLL_INTERVAL = 5"

definition DEFAULT_MAX_POLLS :: int where
  "DEFAULT_MAX_POLLS = 40"

text \<open>The namespace \<open>parse_args()\<close> returns; \<open>--end-date\<close> is \<open>None\<close> when not given.\<close>

record args =
  arg_start_date :: string
  arg_end_date :: "string option"
  arg_sleep :: real
  arg_poll_interval :: real
  arg_max_polls :: int

definition to_date :: "pylib \<Rightarrow> string \<Rightarrow> py_error + date" where
  "to_date L v = fromisoformat L v"

definition build_audit_payload :: "pylib \<Rightarrow> date \<Rightarrow> date \<Rightarrow> (string \<times> string) list" where
  "build_audit_payload L window_start window_end =
     (let payload = [(''report_type'', ''AUDIT''),
                     (''start_date'', strftime L window_start ''%Y-%m-%d'')]
      in if window_end > window_start
         then dict_set payload ''end_date'' (strftime L window_end ''%Y-%m-%d'')
         else payload)"

text \<open>
  \<open>request_report\<close>: the POST, then the two lookups. \<open>embedded\<close> is computed before the
  \<open>or\<close>; the \<open>or\<close> evaluates its right operand only when the left one is falsy.
\<close>

definition request_report ::
  "pylib \<Rightarrow> (string \<times> string) list \<Rightarrow> world \<Rightarrow> (py_error + json) \<times> world" where
  "request_report L payload w =
     (case exchange (HttpPost BASE_URL payload) w of
        (Inl e, w1) \<Rightarrow> (Inl e, w1)
      | (Inr data, w1) \<Rightarrow>
          (case py_get data ''_embedded'' (JObj []) of
             Inl e \<Rightarrow> (Inl e, w1)
           | Inr embedded \<Rightarrow>
               (case py_get data ''id'' JNull of
                  Inl e \<Rightarrow> (Inl e, w1)
                | Inr top_id \<Rightarrow>
                    (case (if truthy top_id then Inr top_id
                           else py_get embedded ''id'' JNull) of
                       Inl e \<Rightarrow> (Inl e, w1)
                     | Inr report_id \<Rightarrow>
                         if \<not> truthy report_id
                         then (Inl (RuntimeError
                                 (''No '' @ [CHR 0x27] @ ''id'' @ [CHR 0x27] @
                                  '' in response from '' @ BASE_URL @ '': '' @
                                  json_dumps L data)), w1)
                         else (Inr report_id, w1)))))"

definition report_url :: "pylib \<Rightarrow> json \<Rightarrow> string" where
  "report_url L report_id = BASE_URL @ ''/'' @ py_str L report_id"

definition get_report_once :: "pylib \<Rightarrow> json \<Rightarrow> world \<Rightarrow> (py_error + json) \<times> world" where
  "get_report_once L report_id w = exchange (HttpGet (report_url L report_id)) w"

text \<open>The status a fetched body reports: \<open>data.get("_embedded", {}).get("status")\<close>.\<close>

definition embedded_status :: "json \<Rightarrow> py_error + json" where
  "embedded_status data =
     (case py_get data ''_embedded'' (JObj []) of
        Inl e \<Rightarrow> Inl e
      | Inr embedded \<Rightarrow> py_get embedded ''status'' JNull)"

text \<open>
  How a loop body ends: control reaches its end (\<open>Next\<close>), it returns from the function,
  or it raises. For the whole \<open>for\<close> statement \<open>Next\<close> means the range is exhausted.
\<close>

datatype 'a flow = Next | Return 'a | Raise py_error

definition poll_line :: "pylib \<Rightarrow> int \<Rightarrow> json \<Rightarrow> string" where
  "poll_line L attempt status =
     ''  Poll '' @ str_int attempt @ '': status='' @ py_str L status"

definition unexpected_status_message :: "pylib \<Rightarrow> json \<Rightarrow> json \<Rightarrow> json \<Rightarrow> string" where
  "unexpected_status_message L report_id status data =
     ''Report '' @ py_str L report_id @ '' ended in unexpected status '' @
     py_str L status @ '': '' @ json_dumps L data"

definition timeout_message :: "pylib \<Rightarrow> json \<Rightarrow> int \<Rightarrow> string" where
  "timeout_message L report_id max_polls =
     ''Report '' @ py_str L report_id @ '' did not reach COMPLETED after '' @
     str_int max_polls @ '' polls''"

text \<open>One pass through the body of the \<open>for attempt in range(1, max_polls + 1)\<close> loop.\<close>

definition poll_once ::
  "pylib \<Rightarrow> json \<Rightarrow> real \<Rightarrow> int \<Rightarrow> world \<Rightarrow> json flow \<times> world" where
  "poll_once L report_id poll_interval attempt w =
     (case get_report_once L report_id w of
        (Inl e, w1) \<Rightarrow> (Raise e, w1)
      | (Inr data, w1) \<Rightarrow>
          (case embedded_status data of
             Inl e \<Rightarrow> (Raise e, w1)
           | Inr status \<Rightarrow>
               (case print L (poll_line L attempt status) w1 of
                  (Inl e, w2) \<Rightarrow> (Raise e, w2)
                | (Inr _, w2) \<Rightarrow>
                    if status = JStr ''COMPLETED'' then (Return data, w2)
                    else if status \<notin> set [JStr ''SUBMITTED'', JStr ''PROCESSING'', JNull]
                    then (Raise (RuntimeError
                            (unexpected_status_message L report_id status data)), w2)
                    else (case time_sleep L poll_interval w2 of
                            (Inl e, w3) \<Rightarrow> (Raise e, w3)
                          | (Inr _, w3) \<Rightarrow> (Next, w3)))))"

fun poll_loop ::
  "pylib \<Rightarrow> json \<Rightarrow> real \<Rightarrow> int list \<Rightarrow> world \<Rightarrow> json flow \<times> world" where
  "poll_loop L report_id poll_interval [] w = (Next, w)"
| "poll_loop L report_id poll_interval (attempt # rest) w =
     (case poll_once L report_id poll_interval attempt w of
        (Next, w') \<Rightarrow> poll_loop L report_id poll_interval rest w'
      | (Return data, w') \<Rightarrow> (Return data, w')
      | (Raise e, w') \<Rightarrow> (Raise e, w'))"

definition wait_for_report ::
  "pylib \<Rightarrow> json \<Rightarrow> real \<Rightarrow> int \<Rightarrow> world \<Rightarrow> (py_error + json) \<times> world" where
  "wait_for_report L report_id poll_interval max_polls w =
     (case poll_loop L report_id poll_interval [1..max_polls] w of
        (Return data, w') \<Rightarrow> (Inr data, w')
      | (Raise e, w') \<Rightarrow> (Inl e, w')
      | (Next, w') \<Rightarrow> (Inl (TimeoutError (timeout_message L report_id max_polls)), w'))"

definition window_outcome :: "string \<Rightarrow> string \<Rightarrow> json \<Rightarrow> json" where
  "window_outcome start_str end_str report_data =
     JObj [(''window_start'', JStr start_str),
           (''window_end'', JStr end_str),
           (''report'', report_data)]"

definition fetch_audit_window ::
  "pylib \<Rightarrow> date \<Rightarrow> date \<Rightarrow> real \<Rightarrow> real \<Rightarrow> int \<Rightarrow> world \<Rightarrow> (py_error + json) \<times> world" where
  "fetch_audit_window L window_start window_end sleep_between_windows poll_interval max_polls w =
     (let payload = build_audit_payload L window_start window_end in
      case map_of payload ''start_date'' of
        None \<Rightarrow> (Inl (KeyError ''start_date''), w)
      | Some start_str \<Rightarrow>
          (let end_str = (case map_of payload ''end_date'' of
                            Some v \<Rightarrow> v | None \<Rightarrow> start_str)
           in case print L (''Requesting AUDIT report from '' @ start_str @ '' to '' @
                            end_str @ ''...'') w of
                (Inl e, w1) \<Rightarrow> (Inl e, w1)
              | (Inr _, w1) \<Rightarrow>
           (case request_report L payload w1 of
                (Inl e, w2) \<Rightarrow> (Inl e, w2)
              | (Inr report_id, w2) \<Rightarrow>
           (case print L (''  Report id: '' @ py_str L report_id) w2 of
                (Inl e, w3) \<Rightarrow> (Inl e, w3)
              | (Inr _, w3) \<Rightarrow>
           (case wait_for_report L report_id poll_interval max_polls w3 of
                (Inl e, w4) \<Rightarrow> (Inl e, w4)
              | (Inr report_data, w4) \<Rightarrow>
           (case print L ''  Report completed and retrieved.'' w4 of
                (Inl e, w5) \<Rightarrow> (Inl e, w5)
              | (Inr _, w5) \<Rightarrow>
           (case time_sleep L sleep_between_windows w5 of
                (Inl e, w6) \<Rightarrow> (Inl e, w6)
              | (Inr _, w6) \<Rightarrow>
                  (Inr (window_outcome start_str end_str report_data), w6))))))))"

text \<open>
  The \<open>for\<close> loop of \<open>main\<close> over the windows the generator yields, numbered from 1;
  \<open>all_windows\<close> is the list the loop appends to.
\<close>

fun for_windows ::
  "pylib \<Rightarrow> args \<Rightarrow> int \<Rightarrow> (date \<times> date) list \<Rightarrow> json list \<Rightarrow> world \<Rightarrow>
   (py_error + json list) \<times> world" where
  "for_windows L a n [] all_windows w = (Inr all_windows, w)"
| "for_windows L a n ((w_start, w_end) # rest) all_windows w =
     (case print L ([CHR 0x0A] @ ''=== Data Window '' @ str_int n @ '': '' @
                    isoformat L w_start @ '' to '' @ isoformat L w_end @ '' ==='') w of
        (Inl e, w1) \<Rightarrow> (Inl e, w1)
      | (Inr _, w1) \<Rightarrow>
          (case fetch_audit_window L w_start w_end
                  (arg_sleep a) (arg_poll_interval a) (arg_max_polls a) w1 of
             (Inl e, w2) \<Rightarrow> (Inl e, w2)
           | (Inr window_data, w2) \<Rightarrow>
               for_windows L a (n + 1) rest (all_windows @ [window_data]) w2))"

text \<open>\<open>to_date(args.end_date) if args.end_date else dt.date.today()\<close>\<close>

definition resolve_end_date :: "pylib \<Rightarrow> args \<Rightarrow> world \<Rightarrow> py_error + date" where
  "resolve_end_date L a w =
     (case arg_end_date a of
        None \<Rightarrow> Inr (today w)
      | Some v \<Rightarrow> if v \<noteq> [] then to_date L v else Inr (today w))"

definition out_file_name :: "pylib \<Rightarrow> date \<Rightarrow> date \<Rightarrow> string" where
  "out_file_name L start_date end_date =
     ''veracode_audit_'' @ isoformat L start_date @ ''_to_'' @ isoformat L end_date @ ''.json''"

text \<open>
  \<open>main\<close>. The generator is consumed by the \<open>for\<close> loop: an exception it raises when
  resumed surfaces after the windows it had yielded have been processed.
\<close>

definition main :: "pylib \<Rightarrow> args \<Rightarrow> world \<Rightarrow> (py_error + unit) \<times> world" where
  "main L a w =
     (case to_date L (arg_start_date a) of
        Inl e \<Rightarrow> (Inl e, w)
      | Inr start_date \<Rightarrow>
          (case resolve_end_date L a w of
             Inl e \<Rightarrow> (Inl e, w)
           | Inr end_date \<Rightarrow>
               if start_date > end_date
               then (Inl (ValueError ''start-date must be on or before end-date''), w)
               else
                 (case print L (''Exporting AUDIT data from '' @ isoformat L start_date @
                                '' to '' @ isoformat L end_date @ ''...'') w of
                    (Inl e, w1) \<Rightarrow> (Inl e, w1)
                  | (Inr _, w1) \<Rightarrow>
                      (let w2 = emit SessionCreated w1
                       in case date_iteration_windows start_date end_date of
                            (windows, generator_error) \<Rightarrow>
                              (case for_windows L a 1 windows [] w2 of
                                 (Inl e, w3) \<Rightarrow> (Inl e, w3)
                               | (Inr all_windows, w3) \<Rightarrow>
                                   (case generator_error of
                                      Some e \<Rightarrow> (Inl e, w3)
                                    | None \<Rightarrow>
                                        (let out_file = out_file_name L start_date end_date;
                                             w4 = emit (FileWrite out_file
                                                    (json_dump_indent L 2
                                                       (JList all_windows))) w3
                                         in print L ([CHR 0x0A] @ ''Done. Saved '' @
                                                     str_int (int (length all_windows)) @
                                                     '' window(s) to '' @ out_file) w4)))))))"

section \<open>Notions the statements use\<close>

text \<open>
  A status that keeps the poll loop going, and a fetch outcome that reports one: a parsed
  body whose \<open>_embedded.status\<close> lookup succeeds with SUBMITTED, PROCESSING or \<open>None\<close>
  (\<open>None\<close> is also what an absent \<open>_embedded\<close> or an absent \<open>status\<close> gives).
\<close>

definition pending_status :: "json \<Rightarrow> bool" where
  "pending_status status = (status \<in> set [JStr ''SUBMITTED'', JStr ''PROCESSING'', JNull])"

definition reports_pending :: "py_error + json \<Rightarrow> bool" where
  "reports_pending r =
     (case r of
        Inl _ \<Rightarrow> False
      | Inr body \<Rightarrow>
          (case embedded_status body of
             Inl _ \<Rightarrow> False
           | Inr status \<Rightarrow> pending_status status))"


text \<open>
  What a location of the submission response yields as identifier: the \<open>id\<close> member when
  present and truthy. \<open>embedded_members\<close> is the nested dict the second lookup reads: empty
  when \<open>_embedded\<close> is absent, undefined when \<open>_embedded\<close> is anything but a dict.
\<close>

definition identifier_at :: "(string \<times> json) list \<Rightarrow> json option" where
  "identifier_at kvs =
     (case map_of kvs ''id'' of
        Some v \<Rightarrow> if truthy v then Some v else None
      | None \<Rightarrow> None)"

definition embedded_members :: "(string \<times> json) list \<Rightarrow> (string \<times> json) list option" where
  "embedded_members kvs =
     (case map_of kvs ''_embedded'' of
        None \<Rightarrow> Some []
      | Some (JObj members) \<Rightarrow> Some members
      | Some _ \<Rightarrow> None)"

text \<open>The world after \<open>n\<close> more HTTP exchanges and the events \<open>evs\<close>.\<close>

definition after :: "world \<Rightarrow> nat \<Rightarrow> event list \<Rightarrow> world" where
  "after w n evs = w\<lparr>http_calls := http_calls w + n, trace := trace w @ evs\<rparr>"

text \<open>The files a run has written so far, in order.\<close>

fun is_file_write :: "event \<Rightarrow> bool" where
  "is_file_write (FileWrite _ _) = True"
| "is_file_write _ = False"

definition files_written :: "world \<Rightarrow> event list" where
  "files_written w = filter is_file_write (trace w)"

text \<open>
  The object \<open>main\<close> appends to \<open>all_windows\<close> for a window and the report fetched for
  it: the two dates as \<open>strftime("%Y-%m-%d")\<close> renders them, and the report body.
\<close>

definition outcome_of :: "pylib \<Rightarrow> date \<times> date \<Rightarrow> json \<Rightarrow> json" where
  "outcome_of L window report_data =
     JObj [(''window_start'', JStr (strftime L (fst window) ''%Y-%m-%d'')),
           (''window_end'', JStr (strftime L (snd window) ''%Y-%m-%d'')),
           (''report'', report_data)]"

text \<open>
  The reports of a run, read off the network alone. Exchange \<open>n\<close> is the submission for
  a window and the status fetches follow it: the report of the window is the body of the
  first fetch that reports COMPLETED, every fetch before it reporting a pending status,
  within the poll budget. The next window's submission is the exchange after that fetch.
\<close>

fun fetched_report :: "(nat \<Rightarrow> py_error + json) \<Rightarrow> nat \<Rightarrow> nat \<Rightarrow> (nat \<times> json) option" where
  "fetched_report net n 0 = None"
| "fetched_report net n (Suc budget) =
     (if reports_pending (net n) then fetched_report net (Suc n) budget
      else case net n of
             Inl _ \<Rightarrow> None
           | Inr body \<Rightarrow>
               if embedded_status body = Inr (JStr ''COMPLETED'') then Some (n, body)
               else None)"

fun fetched_reports :: "(nat \<Rightarrow> py_error + json) \<Rightarrow> nat \<Rightarrow> nat \<Rightarrow> nat \<Rightarrow> json list option" where
  "fetched_reports net n budget 0 = Some []"
| "fetched_reports net n budget (Suc windows) =
     (case fetched_report net (Suc n) budget of
        None \<Rightarrow> None
      | Some (m, body) \<Rightarrow>
          (case fetched_reports net (Suc m) budget windows of
             None \<Rightarrow> None
           | Some reports \<Rightarrow> Some (body # reports)))"

section \<open>A library and worlds for concrete runs\<close>

text \<open>
  A small instance of the library for evaluating the model. It renders the two dates the
  examples use, writes JSON on one line without escaping or indentation, tags a \<open>repr\<close>,
  and its \<open>time.sleep\<close> refuses a negative duration as CPython does.
\<close>

definition example_isoformat :: "date \<Rightarrow> string" where
  "example_isoformat d =
     (if d = 738886 then ''2024-01-01''
      else if d = 739251 then ''2024-12-31''
      else ''day '' @ str_int d)"

fun join :: "string \<Rightarrow> string list \<Rightarrow> string" where
  "join sep [] = []"
| "join sep [x] = x"
| "join sep (x # y # ys) = x @ sep @ join sep (y # ys)"

fun example_dumps :: "json \<Rightarrow> string" where
  "example_dumps JNull = ''null''"
| "example_dumps (JBool b) = (if b then ''true'' else ''false'')"
| "example_dumps (JInt n) = str_int n"
| "example_dumps (JFloat f) = ''<float>''"
| "example_dumps (JStr s) = [CHR 0x22] @ s @ [CHR 0x22]"
| "example_dumps (JList xs) = ''['' @ join '', '' (map example_dumps xs) @ '']''"
| "example_dumps (JObj kvs) =
     ''{'' @ join '', ''
       (map (\<lambda>(k, v). [CHR 0x22] @ k @ [CHR 0x22] @ '': '' @ example_dumps v) kvs) @ ''}''"

fun has_surrogate :: "string \<Rightarrow> bool" where
  "has_surrogate (a # b # cs) =
     ((a = CHR 0xED \<and> (160::nat) \<le> of_char b) \<or> has_surrogate (b # cs))"
| "has_surrogate cs = False"

definition example_lib :: pylib where
  "example_lib =
     \<lparr>py_repr = (\<lambda>v. ''<repr>''),
      json_dumps = example_dumps,
      json_dump_indent = (\<lambda>n. example_dumps),
      strftime = (\<lambda>d fmt. example_isoformat d),
      isoformat = example_isoformat,
      fromisoformat = (\<lambda>v. if v = ''2024-01-01'' then Inr 738886
                            else if v = ''2024-12-31'' then Inr 739251
                            else Inl (ValueError ''Invalid isoformat string'')),
      sleep_error = (\<lambda>secs. if secs < 0
                             then Some (ValueError ''sleep length must be non-negative'')
                             else None),
      stdout_error = (\<lambda>text. if has_surrogate text
                             then Some (UnicodeEncodeError ''surrogates not allowed'')
                             else None)\<rparr>"

definition status_body :: "string \<Rightarrow> json" where
  "status_body s = JObj [(''_embedded'', JObj [(''status'', JStr s)])]"

definition example_world :: "(nat \<Rightarrow> py_error + json) \<Rightarrow> world" where
  "example_world net = \<lparr>today = 738886, http = net, http_calls = 0, trace = []\<rparr>"


text \<open>
  The end-to-end example: one day, a submission answered with the identifier \<open>r1\<close>, and a
  first status fetch answered with a completed report.
\<close>

definition completed_body :: json where
  "completed_body =
     JObj [(''_embedded'', JObj [(''status'', JStr ''COMPLETED'')]), (''data'', JList [])]"

definition example_server :: "nat \<Rightarrow> py_error + json" where
  "example_server n =
     (if n = 0 then Inr (JObj [(''id'', JStr ''r1'')]) else Inr completed_body)"

definition example_args :: args where
  "example_args =
     \<lparr>arg_start_date = ''2024-01-01'', arg_end_date = Some ''2024-01-01'', arg_sleep = 1,
      arg_poll_interval = DEFAULT_POLL_INTERVAL, arg_max_polls = DEFAULT_MAX_POLLS\<rparr>"

section \<open>Properties of the date windower\<close>

lemma date_add_Inr: "date_add d n = Inr r \<Longrightarrow> r = d + n \<and> 0 < d + n \<and> d + n \<le> MAXORDINAL"
  by (simp add: date_add_def Let_def split: if_splits)

lemma windows_from_tiles:
  "current \<le> end_date + 1 \<Longrightarrow> windows_from current end_date = (ws, None) \<Longrightarrow>
   tiles current ws end_date"
proof (induction current end_date arbitrary: ws rule: windows_from.induct)
  case (1 current end_date)
  show ?case
  proof (cases "current \<le> end_date")
    case False
    with "1.prems" show ?thesis
      by (simp add: windows_from.simps)
  next
    case True
    from "1.prems"(2) True obtain upper where up: "date_add current (MAX_WINDOW_DAYS - 1) = Inr upper"
      by (cases "date_add current (MAX_WINDOW_DAYS - 1)") (simp_all add: windows_from.simps)
    define window_end where "window_end = min upper end_date"
    from "1.prems"(2) True up obtain next_current where nx: "date_add window_end 1 = Inr next_current"
      by (cases "date_add window_end 1") (simp_all add: windows_from.simps window_end_def)
    obtain ws' r' where rec: "windows_from next_current end_date = (ws', r')"
      by (cases "windows_from next_current end_date")
    from "1.prems"(2) True up nx rec have ws: "ws = (current, window_end) # ws'" and r': "r' = None"
      by (simp_all add: windows_from.simps[of current end_date] window_end_def)
    have upper: "upper = current + 179"
      using date_add_Inr[OF up] by (simp add: MAX_WINDOW_DAYS_def)
    have nxt: "next_current = window_end + 1"
      using date_add_Inr[OF nx] by simp
    have "next_current \<le> end_date + 1"
      using nxt by (simp add: window_end_def)
    with "1.IH"[OF True up window_end_def nx] rec r' have "tiles next_current ws' end_date"
      by simp
    with ws nxt upper True show ?thesis
      by (simp add: window_end_def MAX_WINDOW_DAYS_def)
  qed
qed

lemma windows_from_finishes:
  "0 < current \<Longrightarrow> end_date + (MAX_WINDOW_DAYS - 1) \<le> MAXORDINAL \<Longrightarrow>
   snd (windows_from current end_date) = None"
proof (induction current end_date rule: windows_from.induct)
  case (1 current end_date)
  show ?case
  proof (cases "current \<le> end_date")
    case False
    then show ?thesis by (simp add: windows_from.simps)
  next
    case True
    have up: "date_add current (MAX_WINDOW_DAYS - 1) = Inr (current + 179)"
      using True "1.prems" by (simp add: date_add_def Let_def MAX_WINDOW_DAYS_def)
    define window_end where "window_end = min (current + 179) end_date"
    have nx: "date_add window_end 1 = Inr (window_end + 1)"
      using True "1.prems" by (simp add: date_add_def Let_def MAX_WINDOW_DAYS_def window_end_def)
    have "snd (windows_from (window_end + 1) end_date) = None"
      using "1.IH"[OF True up window_end_def nx] True "1.prems" by (simp add: window_end_def)
    then show ?thesis
      using True up nx
      by (simp add: windows_from.simps[of current end_date] window_end_def Let_def case_prod_beta)
  qed
qed

lemma tiles_nonempty:
  "tiles s ws e \<Longrightarrow> s \<le> e \<Longrightarrow> ws \<noteq> [] \<and> fst (hd ws) = s \<and> snd (last ws) = e"
proof (induction ws arbitrary: s)
  case Nil
  then show ?case by simp
next
  case (Cons w ws)
  obtain a b where w: "w = (a, b)" by (cases w)
  show ?case
  proof (cases ws)
    case Nil
    with Cons.prems w show ?thesis by simp
  next
    case (Cons w' ws')
    obtain a' b' where w': "w' = (a', b')" by (cases w')
    from Cons.prems w Cons w' have "tiles (b + 1) ws e" "b + 1 \<le> e"
      by simp_all
    from Cons.IH[OF this] Cons.prems w Cons show ?thesis by simp
  qed
qed

lemma tiles_nth:
  "tiles s ws e \<Longrightarrow> i < length ws \<Longrightarrow>
   s \<le> fst (ws ! i) \<and> fst (ws ! i) \<le> snd (ws ! i) \<and> snd (ws ! i) \<le> e \<and>
   snd (ws ! i) - fst (ws ! i) + 1 \<le> MAX_WINDOW_DAYS"
proof (induction ws arbitrary: s i)
  case Nil
  then show ?case by simp
next
  case (Cons w ws)
  obtain a b where w: "w = (a, b)" by (cases w)
  show ?case
  proof (cases i)
    case 0
    with Cons.prems w show ?thesis by simp
  next
    case (Suc k)
    with Cons.prems w have "tiles (b + 1) ws e" "k < length ws" "s \<le> b + 1"
      by simp_all
    from Cons.IH[OF this(1,2)] this(3) Suc show ?thesis by simp
  qed
qed

lemma tiles_contiguous:
  "tiles s ws e \<Longrightarrow> Suc i < length ws \<Longrightarrow> fst (ws ! Suc i) = snd (ws ! i) + 1"
proof (induction ws arbitrary: s i)
  case Nil
  then show ?case by simp
next
  case (Cons w ws)
  obtain a b where w: "w = (a, b)" by (cases w)
  from Cons.prems w have t: "tiles (b + 1) ws e" by simp
  show ?case
  proof (cases i)
    case 0
    with Cons.prems obtain w' ws' where ws: "ws = w' # ws'" by (cases ws) auto
    obtain a' b' where w': "w' = (a', b')" by (cases w')
    from t ws w' 0 w show ?thesis by simp
  next
    case (Suc k)
    with Cons.prems have "Suc k < length ws" by simp
    from Cons.IH[OF t this] Suc show ?thesis by simp
  qed
qed

lemma tiles_disjoint:
  "tiles s ws e \<Longrightarrow> i < j \<Longrightarrow> j < length ws \<Longrightarrow> snd (ws ! i) < fst (ws ! j)"
proof (induction ws arbitrary: s i j)
  case Nil
  then show ?case by simp
next
  case (Cons w ws)
  obtain a b where w: "w = (a, b)" by (cases w)
  from Cons.prems w have t: "tiles (b + 1) ws e" by simp
  from Cons.prems obtain j' where j: "j = Suc j'" "j' < length ws" by (cases j) auto
  show ?case
  proof (cases i)
    case 0
    from tiles_nth[OF t j(2)] 0 j w show ?thesis by simp
  next
    case (Suc k)
    with Cons.prems j have "k < j'" by simp
    from Cons.IH[OF t this j(2)] Suc j show ?thesis by simp
  qed
qed

lemma tiles_cover:
  "tiles s ws e \<Longrightarrow> s \<le> e + 1 \<Longrightarrow> (\<Union>(a, b)\<in>set ws. {a..b}) = {s..e}"
proof (induction ws arbitrary: s)
  case Nil
  then show ?case by simp
next
  case (Cons w ws)
  obtain a b where w: "w = (a, b)" by (cases w)
  from Cons.prems w have t: "tiles (b + 1) ws e" and ab: "a = s" "s \<le> b" "b \<le> e" by simp_all
  from Cons.IH[OF t] ab have "(\<Union>(a, b)\<in>set ws. {a..b}) = {b + 1..e}" by simp
  with w ab show ?case by auto
qed

lemmas window_eval = date_iteration_windows_def windows_from.simps date_add_def Let_def
  MAX_WINDOW_DAYS_def MAXORDINAL_def MINORDINAL_def valid_date_def

lemma windows_from_past_end:
  "end_date < current \<Longrightarrow> windows_from current end_date = ([], None)"
  by (simp add: windows_from.simps)

lemma windows_from_first:
  "0 < current \<Longrightarrow> current \<le> end_date \<Longrightarrow> current + 179 \<le> MAXORDINAL \<Longrightarrow>
   windows_from current end_date =
     (case date_add (min (current + 179) end_date) 1 of
        Inl e \<Rightarrow> ([(current, min (current + 179) end_date)], Some e)
      | Inr next_current \<Rightarrow>
          ((current, min (current + 179) end_date) # fst (windows_from next_current end_date),
           snd (windows_from next_current end_date)))"
  by (subst windows_from.simps)
     (simp add: date_add_def Let_def MAX_WINDOW_DAYS_def case_prod_beta)

subsection \<open>C1: the windows partition the range\<close>

text \<open>
  Claim C1. For every pair of dates with \<open>start \<le> end\<close>: the generator runs to
  exhaustion without raising whenever \<open>end\<close> is at most \<open>date.max\<close> minus 179 days
  (9999-07-05), and whenever it runs to exhaustion the windows it produced are non-empty
  in number, the first starts at \<open>start\<close>, the last ends at \<open>end\<close>, every window has
  start \<le> end and an inclusive length of at most 180 days, each window starts the day
  after its predecessor ends (contiguous), earlier windows lie strictly before later ones
  (ordered, non-overlapping), and the days of all windows together are exactly the days
  of \<open>[start, end]\<close>.
\<close>
theorem date_iteration_windows_partition:
  assumes "valid_date start_date" and "valid_date end_date" and "start_date \<le> end_date"
  shows "(end_date + (MAX_WINDOW_DAYS - 1) \<le> MAXORDINAL \<longrightarrow>
            snd (date_iteration_windows start_date end_date) = None) \<and>
         (\<forall>ws. date_iteration_windows start_date end_date = (ws, None) \<longrightarrow>
            ws \<noteq> [] \<and> fst (hd ws) = start_date \<and> snd (last ws) = end_date \<and>
            (\<forall>i<length ws. fst (ws ! i) \<le> snd (ws ! i) \<and>
                             snd (ws ! i) - fst (ws ! i) + 1 \<le> MAX_WINDOW_DAYS) \<and>
            (\<forall>i. Suc i < length ws \<longrightarrow> fst (ws ! Suc i) = snd (ws ! i) + 1) \<and>
            (\<forall>i j. i < j \<and> j < length ws \<longrightarrow>
                     fst (ws ! i) < fst (ws ! j) \<and> snd (ws ! i) < fst (ws ! j)) \<and>
            (\<Union>(a, b)\<in>set ws. {a..b}) = {start_date..end_date})"
proof (intro conjI)
  show "end_date + (MAX_WINDOW_DAYS - 1) \<le> MAXORDINAL \<longrightarrow>
          snd (date_iteration_windows start_date end_date) = None"
    using assms(1)
    by (simp add: date_iteration_windows_def windows_from_finishes valid_date_def MINORDINAL_def)
next
  show "\<forall>ws. date_iteration_windows start_date end_date = (ws, None) \<longrightarrow>
            ws \<noteq> [] \<and> fst (hd ws) = start_date \<and> snd (last ws) = end_date \<and>
            (\<forall>i<length ws. fst (ws ! i) \<le> snd (ws ! i) \<and>
                             snd (ws ! i) - fst (ws ! i) + 1 \<le> MAX_WINDOW_DAYS) \<and>
            (\<forall>i. Suc i < length ws \<longrightarrow> fst (ws ! Suc i) = snd (ws ! i) + 1) \<and>
            (\<forall>i j. i < j \<and> j < length ws \<longrightarrow>
                     fst (ws ! i) < fst (ws ! j) \<and> snd (ws ! i) < fst (ws ! j)) \<and>
            (\<Union>(a, b)\<in>set ws. {a..b}) = {start_date..end_date}"
  proof (intro allI impI)
    fix ws
    assume "date_iteration_windows start_date end_date = (ws, None)"
    with assms(3) have t: "tiles start_date ws end_date"
      by (simp add: date_iteration_windows_def windows_from_tiles)
    have ends: "ws \<noteq> [] \<and> fst (hd ws) = start_date \<and> snd (last ws) = end_date"
      using tiles_nonempty[OF t assms(3)] .
    have each: "\<forall>i<length ws. fst (ws ! i) \<le> snd (ws ! i) \<and>
                          snd (ws ! i) - fst (ws ! i) + 1 \<le> MAX_WINDOW_DAYS"
      using tiles_nth[OF t] by simp
    have contiguous: "\<forall>i. Suc i < length ws \<longrightarrow> fst (ws ! Suc i) = snd (ws ! i) + 1"
      using tiles_contiguous[OF t] by simp
    have ordered: "\<forall>i j. i < j \<and> j < length ws \<longrightarrow>
                 fst (ws ! i) < fst (ws ! j) \<and> snd (ws ! i) < fst (ws ! j)"
    proof (intro allI impI)
      fix i j
      assume ij: "i < j \<and> j < length ws"
      then have "snd (ws ! i) < fst (ws ! j)"
        using tiles_disjoint[OF t] by simp
      moreover from ij have "fst (ws ! i) \<le> snd (ws ! i)"
        using tiles_nth[OF t, of i] by simp
      ultimately show "fst (ws ! i) < fst (ws ! j) \<and> snd (ws ! i) < fst (ws ! j)"
        by simp
    qed
    have cover: "(\<Union>(a, b)\<in>set ws. {a..b}) = {start_date..end_date}"
      using tiles_cover[OF t] assms(3) by simp
    from ends each contiguous ordered cover
    show "ws \<noteq> [] \<and> fst (hd ws) = start_date \<and> snd (last ws) = end_date \<and>
            (\<forall>i<length ws. fst (ws ! i) \<le> snd (ws ! i) \<and>
                             snd (ws ! i) - fst (ws ! i) + 1 \<le> MAX_WINDOW_DAYS) \<and>
            (\<forall>i. Suc i < length ws \<longrightarrow> fst (ws ! Suc i) = snd (ws ! i) + 1) \<and>
            (\<forall>i j. i < j \<and> j < length ws \<longrightarrow>
                     fst (ws ! i) < fst (ws ! j) \<and> snd (ws ! i) < fst (ws ! j)) \<and>
            (\<Union>(a, b)\<in>set ws. {a..b}) = {start_date..end_date}"
      by blast
  qed
qed

text \<open>The year 2024 (2024-01-01 is day 738886, 2024-12-31 is day 739251): three windows.\<close>
theorem date_iteration_windows_partition_witness:
  "valid_date 738886 \<and> valid_date 739251 \<and> (738886::int) \<le> 739251 \<and>
   739251 + (MAX_WINDOW_DAYS - 1) \<le> MAXORDINAL \<and>
   date_iteration_windows 738886 739251 =
     ([(738886, 739065), (739066, 739245), (739246, 739251)], None) \<and>
   (\<Union>(a, b)\<in>set (fst (date_iteration_windows 738886 739251)). {a..b}) = {738886..739251}"
proof -
  have v: "valid_date 738886" "valid_date 739251" "(738886::int) \<le> 739251"
    by (simp_all add: valid_date_def MINORDINAL_def MAXORDINAL_def)
  have e: "date_iteration_windows 738886 739251 =
     ([(738886, 739065), (739066, 739245), (739246, 739251)], None)"
    by (simp add: window_eval)
  from date_iteration_windows_partition[OF v] e v show ?thesis
    by (simp add: MAX_WINDOW_DAYS_def MAXORDINAL_def)
qed

text \<open>
  Without the bound on \<open>end\<close> the statement of C1 fails: for \<open>start = end =\<close> 9999-12-31
  the first \<open>current + delta\<close> leaves the range of \<open>date\<close>, the generator raises
  \<open>OverflowError\<close> before it yields anything, and no window covers the day.
\<close>
theorem date_iteration_windows_overflow_counterexample:
  "valid_date 3652059 \<and> (3652059::int) \<le> 3652059 \<and>
   date_iteration_windows 3652059 3652059 =
     ([], Some (OverflowError ''date value out of range'')) \<and>
   (\<Union>(a, b)\<in>set (fst (date_iteration_windows 3652059 3652059)). {a..b})
     \<noteq> {3652059..3652059}"
  by (simp add: window_eval)

subsection \<open>C7: boundary cases of the windower\<close>

text \<open>
  Claim C7. For every day \<open>d\<close> at most 9999-07-05 (\<open>date.max\<close> minus 179 days) the
  range \<open>(d, d)\<close> yields exactly the one window \<open>(d, d)\<close>; every range of exactly 180 days
  that ends before \<open>date.max\<close> (at most 9999-12-30) yields exactly one window, the range
  itself; and every range of 181 days whose end is at most 9999-07-05 yields exactly two
  windows, the first 180 days and the last day. In each case the generator then ends
  without raising.
\<close>
theorem date_iteration_windows_boundaries:
  "(valid_date d \<and> d + (MAX_WINDOW_DAYS - 1) \<le> MAXORDINAL \<longrightarrow>
      date_iteration_windows d d = ([(d, d)], None)) \<and>
   (valid_date s \<and> s + MAX_WINDOW_DAYS \<le> MAXORDINAL \<longrightarrow>
      date_iteration_windows s (s + (MAX_WINDOW_DAYS - 1)) =
        ([(s, s + (MAX_WINDOW_DAYS - 1))], None)) \<and>
   (valid_date t \<and> t + MAX_WINDOW_DAYS + (MAX_WINDOW_DAYS - 1) \<le> MAXORDINAL \<longrightarrow>
      date_iteration_windows t (t + MAX_WINDOW_DAYS) =
        ([(t, t + (MAX_WINDOW_DAYS - 1)), (t + MAX_WINDOW_DAYS, t + MAX_WINDOW_DAYS)], None))"
proof (intro conjI impI)
  assume "valid_date d \<and> d + (MAX_WINDOW_DAYS - 1) \<le> MAXORDINAL"
  then have d: "0 < d" "d + 179 \<le> MAXORDINAL"
    by (simp_all add: valid_date_def MINORDINAL_def MAX_WINDOW_DAYS_def)
  then have "date_add d 1 = Inr (d + 1)"
    by (simp add: date_add_def)
  with d show "date_iteration_windows d d = ([(d, d)], None)"
    by (simp add: date_iteration_windows_def windows_from_first windows_from_past_end)
next
  assume "valid_date s \<and> s + MAX_WINDOW_DAYS \<le> MAXORDINAL"
  then have s: "0 < s" "s + 180 \<le> MAXORDINAL"
    by (simp_all add: valid_date_def MINORDINAL_def MAX_WINDOW_DAYS_def)
  then have "date_add (s + 179) 1 = Inr (s + 180)"
    by (simp add: date_add_def)
  with s have "windows_from s (s + 179) = ([(s, s + 179)], None)"
    by (simp add: windows_from_first windows_from_past_end)
  then show "date_iteration_windows s (s + (MAX_WINDOW_DAYS - 1)) =
        ([(s, s + (MAX_WINDOW_DAYS - 1))], None)"
    by (simp add: date_iteration_windows_def MAX_WINDOW_DAYS_def)
next
  assume "valid_date t \<and> t + MAX_WINDOW_DAYS + (MAX_WINDOW_DAYS - 1) \<le> MAXORDINAL"
  then have t: "0 < t" "t + 359 \<le> MAXORDINAL"
    by (simp_all add: valid_date_def MINORDINAL_def MAX_WINDOW_DAYS_def)
  then have a: "date_add (t + 179) 1 = Inr (t + 180)" "date_add (t + 180) 1 = Inr (t + 181)"
    by (simp_all add: date_add_def)
  from t have "windows_from (t + 180) (t + 180) = ([(t + 180, t + 180)], None)"
    by (simp add: windows_from_first a windows_from_past_end)
  with t have "windows_from t (t + 180) = ([(t, t + 179), (t + 180, t + 180)], None)"
    by (simp add: windows_from_first a)
  then show "date_iteration_windows t (t + MAX_WINDOW_DAYS) =
        ([(t, t + (MAX_WINDOW_DAYS - 1)), (t + MAX_WINDOW_DAYS, t + MAX_WINDOW_DAYS)], None)"
    by (simp add: date_iteration_windows_def MAX_WINDOW_DAYS_def)
qed

text \<open>The three boundary cases starting at 2024-01-01.\<close>
theorem date_iteration_windows_boundaries_witness:
  "valid_date 738886 \<and> 738886 + (MAX_WINDOW_DAYS - 1) \<le> MAXORDINAL \<and>
   date_iteration_windows 738886 738886 = ([(738886, 738886)], None) \<and>
   738886 + MAX_WINDOW_DAYS \<le> MAXORDINAL \<and>
   date_iteration_windows 738886 739065 = ([(738886, 739065)], None) \<and>
   738886 + MAX_WINDOW_DAYS + (MAX_WINDOW_DAYS - 1) \<le> MAXORDINAL \<and>
   date_iteration_windows 738886 739066 = ([(738886, 739065), (739066, 739066)], None)"
  using date_iteration_windows_boundaries[of 738886 738886 738886]
  by (simp add: valid_date_def MAX_WINDOW_DAYS_def MAXORDINAL_def MINORDINAL_def)

text \<open>
  For every day, as C7 is written, the statement fails: the range (9999-12-31, 9999-12-31)
  yields no window; the 180 days ending at 9999-12-31 yield their window and then
  \<open>window_end + 1 day\<close> raises \<open>OverflowError\<close> where the generator should end; and the
  181 days ending at 9999-12-31 yield one window only, because \<open>current + delta\<close>
  overflows.
\<close>
theorem date_iteration_windows_boundaries_counterexample:
  "valid_date 3652059 \<and>
   date_iteration_windows 3652059 3652059 \<noteq> ([(3652059, 3652059)], None) \<and>
   fst (date_iteration_windows 3652059 3652059) = [] \<and>
   valid_date 3651880 \<and> 3651880 + (MAX_WINDOW_DAYS - 1) = 3652059 \<and>
   date_iteration_windows 3651880 3652059 =
     ([(3651880, 3652059)], Some (OverflowError ''date value out of range'')) \<and>
   valid_date 3651879 \<and> 3651879 + MAX_WINDOW_DAYS = 3652059 \<and>
   fst (date_iteration_windows 3651879 3652059) = [(3651879, 3652058)]"
  by (simp add: window_eval)

section \<open>Worlds and traces\<close>

lemma after_simps [simp]:
  "http (after w n evs) = http w"
  "today (after w n evs) = today w"
  "http_calls (after w n evs) = http_calls w + n"
  "trace (after w n evs) = trace w @ evs"
  by (simp_all add: after_def)

lemma after_after [simp]: "after (after w n evs) m evs' = after w (n + m) (evs @ evs')"
  by (simp add: after_def add.assoc)

lemma after_0 [simp]: "after w 0 [] = w"
  by (simp add: after_def)

lemma events_since_after [simp]: "events_since w (after w n evs) = evs"
  by (simp add: events_since_def)

lemma exchange_after: "exchange ev w = (http w (http_calls w), after w 1 [ev])"
  by (simp add: exchange_def emit_def after_def)

lemma print_ok:
  "print_error L line = None \<Longrightarrow> print L line w = (Inr (), after w 0 [Print line])"
  by (simp add: print_def emit_def after_def)


lemma ascii_text_append [simp]: "ascii_text (a @ b) = (ascii_text a \<and> ascii_text b)"
  by (simp add: ascii_text_def)

lemma ascii_text_Cons [simp]: "ascii_text (c # s) = (\<not> digit7 c \<and> ascii_text s)"
  by (simp add: ascii_text_def)

lemma ascii_text_Nil [simp]: "ascii_text []"
  by (simp add: ascii_text_def)

lemma ascii_text_str_nat: "ascii_text (str_nat n)"
proof (induction n rule: str_nat.induct)
  case (1 n)
  have digit: "ascii_text [''0123456789'' ! k]" if "k < 10" for k
  proof -
    from that have "''0123456789'' ! k \<in> set ''0123456789''"
      by (intro nth_mem) simp
    then show ?thesis
      by (auto simp add: ascii_text_def)
  qed
  show ?case
  proof (cases "n < 10")
    case True
    with digit[of n] show ?thesis
      by (simp add: str_nat.simps[of n])
  next
    case False
    with "1.IH" digit[of "n mod 10"] show ?thesis
      by (simp add: str_nat.simps[of n])
  qed
qed

lemma ascii_text_str_int: "ascii_text (str_int i)"
proof (cases "i < 0")
  case True
  have "ascii_text [CHR ''-'']"
    by (simp add: ascii_text_def)
  with True ascii_text_str_nat[of "nat (- i)"] show ?thesis
    using ascii_text_append[of "[CHR ''-'']" "str_nat (nat (- i))"]
    by (simp add: str_int_def)
next
  case False
  with ascii_text_str_nat[of "nat i"] show ?thesis
    by (simp add: str_int_def)
qed



lemmas example_eval =
  example_lib_def example_world_def status_body_def example_isoformat_def
  reports_pending_def pending_status_def embedded_status_def


section \<open>Properties of the report poller\<close>

lemma ascii_text_poll_line:
  assumes "status = JStr ''COMPLETED'' \<or> pending_status status"
  shows "ascii_text (poll_line L attempt status)"
proof -
  have "ascii_text (py_str L status)"
    using assms by (auto simp add: pending_status_def ascii_text_def)
  moreover have "ascii_text ''  Poll ''" "ascii_text '': status=''"
    by (simp_all add: ascii_text_def)
  ultimately show ?thesis
    using ascii_text_str_int[of attempt] by (simp add: poll_line_def)
qed

lemma print_poll_line:
  assumes "status = JStr ''COMPLETED'' \<or> pending_status status"
  shows "print L (poll_line L attempt status) w =
           (Inr (), after w 0 [Print (poll_line L attempt status)])"
  using ascii_text_poll_line[OF assms] by (simp add: print_ok print_error_def)


lemma poll_once_completed:
  assumes "http w (http_calls w) = Inr body"
    and "embedded_status body = Inr (JStr ''COMPLETED'')"
  shows "poll_once L report_id poll_interval attempt w =
           (Return body, after w 1 [HttpGet (report_url L report_id),
                                    Print (poll_line L attempt (JStr ''COMPLETED''))])"
  using assms print_poll_line[of "JStr ''COMPLETED''" L attempt
      "after w 1 [HttpGet (report_url L report_id)]"]
  by (simp add: poll_once_def get_report_once_def exchange_after)

















subsection \<open>C2: the poll budget runs out\<close>




subsection \<open>C3: what one poll attempt does\<close>




subsection \<open>C8: completed at the first poll\<close>

text \<open>
  Claim C8. For every report identifier, if the first status fetch of \<open>wait_for_report\<close>
  (there is one when \<open>max_polls \<ge> 1\<close>) reports COMPLETED, the call returns the fetched
  body unchanged after exactly one fetch and one progress line, with no sleep.
\<close>
theorem wait_for_report_completed_first:
  assumes "1 \<le> max_polls"
    and "http w (http_calls w) = Inr body"
    and "embedded_status body = Inr (JStr ''COMPLETED'')"
  shows "fst (wait_for_report L report_id poll_interval max_polls w) = Inr body \<and>
         events_since w (snd (wait_for_report L report_id poll_interval max_polls w)) =
           [HttpGet (report_url L report_id), Print (poll_line L 1 (JStr ''COMPLETED''))] \<and>
         http_calls (snd (wait_for_report L report_id poll_interval max_polls w)) =
           http_calls w + 1"
proof -
  from assms(1) have "[1..max_polls] = 1 # [2..max_polls]"
    by (simp add: upto_rec1)
  with poll_once_completed[OF assms(2,3), of L report_id poll_interval 1]
  have "wait_for_report L report_id poll_interval max_polls w =
      (Inr body, after w 1 [HttpGet (report_url L report_id),
                            Print (poll_line L 1 (JStr ''COMPLETED''))])"
    by (simp add: wait_for_report_def)
  then show ?thesis by simp
qed

text \<open>The default budget of 40 polls, the first of which reports COMPLETED.\<close>
theorem wait_for_report_completed_first_witness:
  "(1::int) \<le> 40 \<and>
   http (example_world (\<lambda>n. Inr (status_body ''COMPLETED''))) 0 = Inr (status_body ''COMPLETED'') \<and>
   embedded_status (status_body ''COMPLETED'') = Inr (JStr ''COMPLETED'') \<and>
   fst (wait_for_report example_lib (JStr ''r1'') 5 40
          (example_world (\<lambda>n. Inr (status_body ''COMPLETED'')))) = Inr (status_body ''COMPLETED'') \<and>
   events_since (example_world (\<lambda>n. Inr (status_body ''COMPLETED'')))
     (snd (wait_for_report example_lib (JStr ''r1'') 5 40
          (example_world (\<lambda>n. Inr (status_body ''COMPLETED''))))) =
     [HttpGet ''https://api.veracode.com/appsec/v1/analytics/report/r1'',
      Print ''  Poll 1: status=COMPLETED'']"
  using wait_for_report_completed_first[of 40
      "example_world (\<lambda>n. Inr (status_body ''COMPLETED''))" "status_body ''COMPLETED''"
      example_lib "JStr ''r1''" 5]
  by (simp add: example_eval report_url_def BASE_URL_def poll_line_def str_int_def str_nat.simps)

subsection \<open>C10: no poll budget\<close>

text \<open>
  Claim C10. For every report identifier and every \<open>max_polls \<le> 0\<close>,
  \<open>wait_for_report\<close> raises \<open>TimeoutError\<close> at once: the world is unchanged, so there is
  no fetch and no sleep.
\<close>
theorem wait_for_report_no_polls:
  assumes "max_polls \<le> 0"
  shows "wait_for_report L report_id poll_interval max_polls w =
           (Inl (TimeoutError (''Report '' @ py_str L report_id @
                   '' did not reach COMPLETED after '' @ str_int max_polls @ '' polls'')), w) \<and>
         events_since w (snd (wait_for_report L report_id poll_interval max_polls w)) = []"
  using assms by (simp add: wait_for_report_def timeout_message_def events_since_def)

text \<open>A budget of zero polls.\<close>
theorem wait_for_report_no_polls_witness:
  "(0::int) \<le> 0 \<and>
   wait_for_report example_lib (JStr ''r1'') 5 0 (example_world (\<lambda>n. Inr (status_body ''PROCESSING''))) =
     (Inl (TimeoutError ''Report r1 did not reach COMPLETED after 0 polls''),
      example_world (\<lambda>n. Inr (status_body ''PROCESSING'')))"
  using wait_for_report_no_polls[of 0 example_lib "JStr ''r1''" 5
      "example_world (\<lambda>n. Inr (status_body ''PROCESSING''))"]
  by (simp add: str_int_def str_nat.simps)

section \<open>Properties of the requester and of main\<close>

subsection \<open>C6: the request payload\<close>

text \<open>
  Claim C6. For every window with \<open>window_start \<le> window_end\<close>, the payload has the
  key \<open>end_date\<close> exactly when \<open>window_end\<close> is after \<open>window_start\<close> (and then its value
  is the formatted end date), and always has \<open>report_type\<close> = "AUDIT" and \<open>start_date\<close> =
  the formatted start date.
\<close>
theorem build_audit_payload_fields:
  assumes "window_start \<le> window_end"
  shows "(''end_date'' \<in> fst ` set (build_audit_payload L window_start window_end)) =
           (window_start < window_end) \<and>
         map_of (build_audit_payload L window_start window_end) ''end_date'' =
           (if window_start < window_end then Some (strftime L window_end ''%Y-%m-%d'')
            else None) \<and>
         map_of (build_audit_payload L window_start window_end) ''report_type'' =
           Some ''AUDIT'' \<and>
         map_of (build_audit_payload L window_start window_end) ''start_date'' =
           Some (strftime L window_start ''%Y-%m-%d'')"
  by (simp add: build_audit_payload_def Let_def)

text \<open>The single day 2024-01-01, and the year 2024.\<close>
theorem build_audit_payload_fields_witness:
  "(738886::int) \<le> 738886 \<and>
   build_audit_payload example_lib 738886 738886 =
     [(''report_type'', ''AUDIT''), (''start_date'', ''2024-01-01'')] \<and>
   map_of (build_audit_payload example_lib 738886 738886) ''end_date'' = None \<and>
   (738886::int) \<le> 739251 \<and>
   map_of (build_audit_payload example_lib 738886 739251) ''end_date'' = Some ''2024-12-31'' \<and>
   map_of (build_audit_payload example_lib 738886 739251) ''report_type'' = Some ''AUDIT''"
  using build_audit_payload_fields[of 738886 738886 example_lib]
    build_audit_payload_fields[of 738886 739251 example_lib]
  by (simp add: example_lib_def example_isoformat_def build_audit_payload_def)

subsection \<open>C4: where the report identifier comes from\<close>

text \<open>
  Claim C4. For every submission response whose parsed body is a JSON object:
  \<open>request_report\<close> returns the top-level \<open>id\<close> when it is present and truthy; otherwise,
  when \<open>_embedded\<close> is absent or an object, it returns the nested \<open>id\<close> when that is
  present and truthy, and else raises \<open>RuntimeError\<close> whose message ends with the raw
  body. It performs exactly one POST.
\<close>
theorem request_report_fallback:
  assumes "http w (http_calls w) = Inr (JObj kvs)"
  shows "(\<forall>v. identifier_at kvs = Some v \<longrightarrow>
            fst (request_report L payload w) = Inr v) \<and>
         (\<forall>members. identifier_at kvs = None \<and> embedded_members kvs = Some members \<longrightarrow>
            fst (request_report L payload w) =
              (case identifier_at members of
                 Some v \<Rightarrow> Inr v
               | None \<Rightarrow> Inl (RuntimeError
                   (''No '' @ [CHR 0x27] @ ''id'' @ [CHR 0x27] @ '' in response from '' @
                    BASE_URL @ '': '' @ json_dumps L (JObj kvs))))) \<and>
         events_since w (snd (request_report L payload w)) = [HttpPost BASE_URL payload]"
proof (intro conjI allI impI)
  fix v assume "identifier_at kvs = Some v"
  then have "map_of kvs ''id'' = Some v" "truthy v"
    by (auto simp add: identifier_at_def split: option.splits if_splits)
  with assms show "fst (request_report L payload w) = Inr v"
    by (simp add: request_report_def exchange_after)
next
  fix members
  assume h: "identifier_at kvs = None \<and> embedded_members kvs = Some members"
  then have top: "\<not> truthy (case map_of kvs ''id'' of Some v \<Rightarrow> v | None \<Rightarrow> JNull)"
    by (auto simp add: identifier_at_def split: option.splits if_splits)
  from h have emb: "(case map_of kvs ''_embedded'' of Some v \<Rightarrow> v | None \<Rightarrow> JObj []) =
      JObj members"
    by (auto simp add: embedded_members_def split: option.splits json.splits)
  show "fst (request_report L payload w) =
      (case identifier_at members of
         Some v \<Rightarrow> Inr v
       | None \<Rightarrow> Inl (RuntimeError
           (''No '' @ [CHR 0x27] @ ''id'' @ [CHR 0x27] @ '' in response from '' @
            BASE_URL @ '': '' @ json_dumps L (JObj kvs))))"
    using assms top emb
    by (auto simp add: request_report_def exchange_after identifier_at_def
        split: option.splits)
next
  show "events_since w (snd (request_report L payload w)) = [HttpPost BASE_URL payload]"
    by (auto simp add: request_report_def exchange_after split: sum.splits prod.splits)
qed

text \<open>A nested identifier, a top-level identifier, and a body with a null \<open>id\<close>.\<close>
theorem request_report_fallback_witness:
  "http (example_world (\<lambda>n. Inr (JObj [(''_embedded'', JObj [(''id'', JStr ''r2'')])]))) 0 =
     Inr (JObj [(''_embedded'', JObj [(''id'', JStr ''r2'')])]) \<and>
   identifier_at [(''_embedded'', JObj [(''id'', JStr ''r2'')])] = None \<and>
   embedded_members [(''_embedded'', JObj [(''id'', JStr ''r2'')])] =
     Some [(''id'', JStr ''r2'')] \<and>
   fst (request_report example_lib [(''report_type'', ''AUDIT'')]
          (example_world (\<lambda>n. Inr (JObj [(''_embedded'', JObj [(''id'', JStr ''r2'')])])))) =
     Inr (JStr ''r2'') \<and>
   identifier_at [(''id'', JStr ''r1'')] = Some (JStr ''r1'') \<and>
   fst (request_report example_lib [(''report_type'', ''AUDIT'')]
          (example_world (\<lambda>n. Inr (JObj [(''id'', JStr ''r1'')])))) = Inr (JStr ''r1'') \<and>
   fst (request_report example_lib [(''report_type'', ''AUDIT'')]
          (example_world (\<lambda>n. Inr (JObj [(''id'', JNull)])))) =
     Inl (RuntimeError (''No '' @ [CHR 0x27] @ ''id'' @ [CHR 0x27] @
       '' in response from https://api.veracode.com/appsec/v1/analytics/report: '' @
       example_dumps (JObj [(''id'', JNull)])))"
proof -
  let ?nested = "[(''_embedded'', JObj [(''id'', JStr ''r2'')])]"
  let ?top = "[(''id'', JStr ''r1'')]"
  let ?none = "[(''id'', JNull)]"
  have n: "http (example_world (\<lambda>n. Inr (JObj ?nested)))
             (http_calls (example_world (\<lambda>n. Inr (JObj ?nested)))) = Inr (JObj ?nested)"
    and t: "http (example_world (\<lambda>n. Inr (JObj ?top)))
             (http_calls (example_world (\<lambda>n. Inr (JObj ?top)))) = Inr (JObj ?top)"
    and e: "http (example_world (\<lambda>n. Inr (JObj ?none)))
             (http_calls (example_world (\<lambda>n. Inr (JObj ?none)))) = Inr (JObj ?none)"
    by (simp_all add: example_world_def)
  have ids: "identifier_at ?nested = None \<and> embedded_members ?nested = Some [(''id'', JStr ''r2'')]"
    "identifier_at ?top = Some (JStr ''r1'')"
    "identifier_at ?none = None \<and> embedded_members ?none = Some []"
    by (simp_all add: identifier_at_def embedded_members_def)
  from request_report_fallback[OF n, of example_lib "[(''report_type'', ''AUDIT'')]",
      THEN conjunct2, THEN conjunct1, rule_format, OF ids(1)]
    request_report_fallback[OF t, of example_lib "[(''report_type'', ''AUDIT'')]",
      THEN conjunct1, rule_format, OF ids(2)]
    request_report_fallback[OF e, of example_lib "[(''report_type'', ''AUDIT'')]",
      THEN conjunct2, THEN conjunct1, rule_format, OF ids(3)]
  show ?thesis
    using ids by (simp add: identifier_at_def example_lib_def example_world_def BASE_URL_def)
qed

text \<open>
  For every parsed body, as C4 is written, the statement fails: the bodies
  \<open>{"_embedded": null}\<close> and \<open>[]\<close> yield no identifier, and the call raises
  \<open>AttributeError\<close>, whose message does not report the body.
\<close>
theorem request_report_null_embedded_counterexample:
  "identifier_at [(''_embedded'', JNull)] = None \<and>
   fst (request_report example_lib [(''report_type'', ''AUDIT'')]
          (example_world (\<lambda>n. Inr (JObj [(''_embedded'', JNull)])))) =
     Inl (AttributeError ([CHR 0x27] @ ''NoneType'' @ [CHR 0x27] @
       '' object has no attribute '' @ [CHR 0x27] @ ''get'' @ [CHR 0x27])) \<and>
   fst (request_report example_lib [(''report_type'', ''AUDIT'')]
          (example_world (\<lambda>n. Inr (JList [])))) =
     Inl (AttributeError ([CHR 0x27] @ ''list'' @ [CHR 0x27] @
       '' object has no attribute '' @ [CHR 0x27] @ ''get'' @ [CHR 0x27]))"
  by (simp add: identifier_at_def request_report_def exchange_def emit_def example_world_def)

subsection \<open>C5: validation comes before the network\<close>

text \<open>
  Claim C5. For every run in which the start date resolves to a date strictly after the
  resolved end date, \<open>main\<close> raises \<open>ValueError\<close> and leaves the world as it was: the
  trace gains no event, so no session is created and no request is sent.
\<close>
theorem main_rejects_reversed_range:
  assumes "to_date L (arg_start_date a) = Inr start_date"
    and "resolve_end_date L a w = Inr end_date"
    and "start_date > end_date"
  shows "main L a w = (Inl (ValueError ''start-date must be on or before end-date''), w) \<and>
         events_since w (snd (main L a w)) = []"
  using assms by (simp add: main_def events_since_def)

text \<open>\<open>--start-date 2024-12-31 --end-date 2024-01-01\<close>\<close>
theorem main_rejects_reversed_range_witness:
  "to_date example_lib ''2024-12-31'' = Inr 739251 \<and>
   resolve_end_date example_lib
     \<lparr>arg_start_date = ''2024-12-31'', arg_end_date = Some ''2024-01-01'', arg_sleep = 1,
      arg_poll_interval = 5, arg_max_polls = 40\<rparr>
     (example_world (\<lambda>n. Inl (RequestException ''unreachable''))) = Inr 738886 \<and>
   (739251::int) > 738886 \<and>
   main example_lib
     \<lparr>arg_start_date = ''2024-12-31'', arg_end_date = Some ''2024-01-01'', arg_sleep = 1,
      arg_poll_interval = 5, arg_max_polls = 40\<rparr>
     (example_world (\<lambda>n. Inl (RequestException ''unreachable''))) =
     (Inl (ValueError ''start-date must be on or before end-date''),
      example_world (\<lambda>n. Inl (RequestException ''unreachable'')))"
  using main_rejects_reversed_range[of example_lib
      "\<lparr>arg_start_date = ''2024-12-31'', arg_end_date = Some ''2024-01-01'', arg_sleep = 1,
        arg_poll_interval = 5, arg_max_polls = 40\<rparr>" 739251
      "example_world (\<lambda>n. Inl (RequestException ''unreachable''))" 738886]
  by (simp add: to_date_def resolve_end_date_def example_lib_def)

section \<open>Properties of the whole run\<close>

lemma print_frame:
  assumes "print L line w = (r, w')"
  shows "http w' = http w \<and> http_calls w' = http_calls w \<and> files_written w' = files_written w"
  using assms
  by (auto simp add: print_def emit_def files_written_def split: option.splits)

lemma time_sleep_frame:
  assumes "time_sleep L secs w = (r, w')"
  shows "http w' = http w \<and> http_calls w' = http_calls w \<and> files_written w' = files_written w"
  using assms
  by (auto simp add: time_sleep_def emit_def files_written_def split: option.splits)

lemma exchange_frame:
  assumes "exchange ev w = (r, w')" and "\<not> is_file_write ev"
  shows "r = http w (http_calls w) \<and> http w' = http w \<and>
         http_calls w' = Suc (http_calls w) \<and> files_written w' = files_written w"
  using assms
  by (auto simp add: exchange_def emit_def files_written_def)

lemma request_report_frame:
  assumes "request_report L payload w = (r, w')"
  shows "http w' = http w \<and> http_calls w' = Suc (http_calls w) \<and>
         files_written w' = files_written w"
proof -
  obtain x w1 where x: "exchange (HttpPost BASE_URL payload) w = (x, w1)"
    by (cases "exchange (HttpPost BASE_URL payload) w")
  from assms x have "w' = w1"
    by (simp add: request_report_def split: sum.splits if_splits)
  with exchange_frame[OF x] show ?thesis by simp
qed

lemma poll_once_frame:
  assumes "poll_once L report_id poll_interval attempt w = (r, w')"
  shows "http w' = http w \<and> http_calls w' = Suc (http_calls w) \<and>
         files_written w' = files_written w \<and>
         (r = Next \<longrightarrow> reports_pending (http w (http_calls w))) \<and>
         (\<forall>data. r = Return data \<longrightarrow>
            http w (http_calls w) = Inr data \<and>
            embedded_status data = Inr (JStr ''COMPLETED''))"
proof -
  obtain x w1 where x: "exchange (HttpGet (report_url L report_id)) w = (x, w1)"
    by (cases "exchange (HttpGet (report_url L report_id)) w")
  have g: "get_report_once L report_id w = (x, w1)"
    using x by (simp add: get_report_once_def)
  have hx: "http w (http_calls w) = x"
    using exchange_frame[OF x] by simp
  have f1: "http w1 = http w \<and> http_calls w1 = Suc (http_calls w) \<and>
      files_written w1 = files_written w"
    using exchange_frame[OF x] by simp
  show ?thesis
  proof (cases x)
    case (Inl e)
    with assms g have "r = Raise e" "w' = w1"
      by (simp_all add: poll_once_def)
    with f1 show ?thesis by simp
  next
    case (Inr data)
    show ?thesis
    proof (cases "embedded_status data")
      case (Inl e)
      with assms g Inr have "r = Raise e" "w' = w1"
        by (simp_all add: poll_once_def)
      with f1 show ?thesis by simp
    next
      case status: (Inr status)
      obtain p w2 where p: "print L (poll_line L attempt status) w1 = (p, w2)"
        by (cases "print L (poll_line L attempt status) w1")
      note f2 = print_frame[OF p]
      show ?thesis
      proof (cases p)
        case (Inl e)
        with assms g Inr status p have "r = Raise e" "w' = w2"
          by (simp_all add: poll_once_def)
        with f1 f2 show ?thesis by simp
      next
        case printed: (Inr u)
        obtain s w3 where s: "time_sleep L poll_interval w2 = (s, w3)"
          by (cases "time_sleep L poll_interval w2")
        note f3 = time_sleep_frame[OF s]
        have pend: "reports_pending (http w (http_calls w)) = pending_status status"
          using hx Inr status by (simp add: reports_pending_def)
        show ?thesis
        proof (cases "status = JStr ''COMPLETED''")
          case True
          with assms g Inr status p printed have "r = Return data" "w' = w2"
            by (simp_all add: poll_once_def)
          with f1 f2 hx Inr status True show ?thesis by simp
        next
          case False
          show ?thesis
          proof (cases "pending_status status")
            case no: False
            with assms g Inr status p printed False
            have "r = Raise (RuntimeError
                (unexpected_status_message L report_id status data))" "w' = w2"
              by (simp_all add: poll_once_def pending_status_def)
            with f1 f2 show ?thesis by simp
          next
            case True
            show ?thesis
            proof (cases s)
              case (Inl e)
              with assms g Inr status p printed False True s
              have "r = Raise e \<and> w' = w3"
                by (auto simp add: poll_once_def pending_status_def)
              with f1 f2 f3 show ?thesis by simp
            next
              case slept: (Inr u)
              with assms g Inr status p printed False True s
              have "r = Next \<and> w' = w3"
                by (auto simp add: poll_once_def pending_status_def)
              with f1 f2 f3 pend True show ?thesis by simp
            qed
          qed
        qed
      qed
    qed
  qed
qed

lemma not_pending_completed:
  "embedded_status data = Inr (JStr ''COMPLETED'') \<Longrightarrow> \<not> reports_pending (Inr data)"
  by (simp add: reports_pending_def pending_status_def)

lemma poll_loop_frame:
  assumes "poll_loop L report_id poll_interval attempts w = (r, w')"
  shows "http w' = http w \<and> files_written w' = files_written w \<and>
         (\<forall>data. r = Return data \<longrightarrow>
            fetched_report (http w) (http_calls w) (length attempts) =
              Some (http_calls w' - 1, data) \<and>
            http_calls w < http_calls w')"
  using assms
proof (induction attempts arbitrary: w)
  case Nil
  then show ?case by auto
next
  case (Cons attempt rest)
  obtain r1 w1 where p: "poll_once L report_id poll_interval attempt w = (r1, w1)"
    by (cases "poll_once L report_id poll_interval attempt w")
  note f = poll_once_frame[OF p]
  show ?case
  proof (cases r1)
    case Next
    with p Cons.prems have rec: "poll_loop L report_id poll_interval rest w1 = (r, w')"
      by simp
    note ih = Cons.IH[OF rec]
    from f Next have pend: "reports_pending (http w (http_calls w))"
      by simp
    from ih f pend show ?thesis
      by auto
  next
    case (Return d)
    with p Cons.prems have "r = Return d" "w' = w1"
      by simp_all
    moreover from f Return have "http w (http_calls w) = Inr d"
      "embedded_status d = Inr (JStr ''COMPLETED'')"
      by simp_all
    moreover from this have "\<not> reports_pending (http w (http_calls w))"
      using not_pending_completed by simp
    ultimately show ?thesis
      using f by auto
  next
    case (Raise e)
    with p Cons.prems have "r = Raise e" "w' = w1"
      by simp_all
    with f show ?thesis by auto
  qed
qed

lemma wait_for_report_frame:
  assumes "wait_for_report L report_id poll_interval max_polls w = (r, w')"
  shows "http w' = http w \<and> files_written w' = files_written w \<and>
         (\<forall>data. r = Inr data \<longrightarrow>
            fetched_report (http w) (http_calls w) (nat max_polls) =
              Some (http_calls w' - 1, data) \<and>
            http_calls w < http_calls w')"
proof -
  obtain r1 w1 where p: "poll_loop L report_id poll_interval [1..max_polls] w = (r1, w1)"
    by (cases "poll_loop L report_id poll_interval [1..max_polls] w")
  from assms p have w': "w' = w1"
    by (cases r1) (simp_all add: wait_for_report_def)
  from assms p have r: "\<And>data. r = Inr data \<Longrightarrow> r1 = Return data"
    by (cases r1) (simp_all add: wait_for_report_def)
  have len: "length [1..max_polls] = nat max_polls"
    by simp
  from poll_loop_frame[OF p] w' r len show ?thesis
    by auto
qed

lemma fetched_report_completed:
  "fetched_report net n budget = Some (m, data) \<Longrightarrow>
   net m = Inr data \<and> embedded_status data = Inr (JStr ''COMPLETED'') \<and> n \<le> m"
proof (induction budget arbitrary: n)
  case 0
  then show ?case by simp
next
  case (Suc budget)
  show ?case
  proof (cases "reports_pending (net n)")
    case True
    with Suc.prems have "fetched_report net (Suc n) budget = Some (m, data)"
      by simp
    from Suc.IH[OF this] show ?thesis by simp
  next
    case False
    with Suc.prems show ?thesis
      by (auto split: sum.splits if_splits)
  qed
qed

lemma fetch_audit_window_result:
  assumes "fetch_audit_window L window_start window_end sleep_between_windows
             poll_interval max_polls w = (Inr out, w')"
    and "window_start \<le> window_end"
  shows "\<exists>report_data.
           fetched_report (http w) (Suc (http_calls w)) (nat max_polls) =
             Some (http_calls w' - 1, report_data) \<and>
           Suc (http_calls w) < http_calls w' \<and>
           out = outcome_of L (window_start, window_end) report_data \<and>
           http w' = http w \<and> files_written w' = files_written w"
proof -
  let ?payload = "build_audit_payload L window_start window_end"
  let ?start_str = "strftime L window_start ''%Y-%m-%d''"
  let ?end_str = "strftime L window_end ''%Y-%m-%d''"
  let ?line1 = "''Requesting AUDIT report from '' @ ?start_str @ '' to '' @ ?end_str @ ''...''"
  have s: "map_of ?payload ''start_date'' = Some ?start_str"
    by (simp add: build_audit_payload_def Let_def)
  have e: "(case map_of ?payload ''end_date'' of Some v \<Rightarrow> v | None \<Rightarrow> ?start_str) = ?end_str"
    using assms(2)
    by (cases "window_start = window_end") (simp_all add: build_audit_payload_def Let_def)
  note unfold = fetch_audit_window_def Let_def s e option.case
  obtain p1 w1 where p1: "print L ?line1 w = (p1, w1)"
    by (cases "print L ?line1 w")
  from assms(1) p1 obtain u1 where u1: "p1 = Inr u1"
    by (cases p1) (simp_all add: unfold)
  obtain r2 w2 where rq: "request_report L ?payload w1 = (r2, w2)"
    by (cases "request_report L ?payload w1")
  from assms(1) p1 u1 rq obtain report_id where r2: "r2 = Inr report_id"
    by (cases r2) (simp_all add: unfold)
  obtain p3 w3 where p3: "print L (''  Report id: '' @ py_str L report_id) w2 = (p3, w3)"
    by (cases "print L (''  Report id: '' @ py_str L report_id) w2")
  from assms(1) p1 u1 rq r2 p3 obtain u3 where u3: "p3 = Inr u3"
    by (cases p3) (simp_all add: unfold)
  obtain r4 w4 where wt: "wait_for_report L report_id poll_interval max_polls w3 = (r4, w4)"
    by (cases "wait_for_report L report_id poll_interval max_polls w3")
  from assms(1) p1 u1 rq r2 p3 u3 wt obtain report_data where r4: "r4 = Inr report_data"
    by (cases r4) (simp_all add: unfold)
  obtain p5 w5 where p5: "print L ''  Report completed and retrieved.'' w4 = (p5, w5)"
    by (cases "print L ''  Report completed and retrieved.'' w4")
  from assms(1) p1 u1 rq r2 p3 u3 wt r4 p5 obtain u5 where u5: "p5 = Inr u5"
    by (cases p5) (simp_all add: unfold)
  obtain r6 w6 where sl: "time_sleep L sleep_between_windows w5 = (r6, w6)"
    by (cases "time_sleep L sleep_between_windows w5")
  from assms(1) p1 u1 rq r2 p3 u3 wt r4 p5 u5 sl
  have fin: "r6 = Inr () \<and> w' = w6 \<and> out = window_outcome ?start_str ?end_str report_data"
    by (cases r6) (simp_all add: unfold)
  note f1 = print_frame[OF p1] and f2 = request_report_frame[OF rq]
    and f3 = print_frame[OF p3] and f4 = wait_for_report_frame[OF wt]
    and f5 = print_frame[OF p5] and f6 = time_sleep_frame[OF sl]
  have calls3: "http_calls w3 = Suc (http_calls w)" and net3: "http w3 = http w"
    using f1 f2 f3 by simp_all
  from f4 r4 calls3 net3
  have rep: "fetched_report (http w) (Suc (http_calls w)) (nat max_polls) =
      Some (http_calls w4 - 1, report_data)" and more: "Suc (http_calls w) < http_calls w4"
    by simp_all
  have calls': "http_calls w' = http_calls w4" and net': "http w' = http w"
    and files': "files_written w' = files_written w"
    using f1 f2 f3 f4 f5 f6 fin by simp_all
  have "out = outcome_of L (window_start, window_end) report_data"
    using fin by (simp add: outcome_of_def window_outcome_def)
  with rep more calls' net' files' show ?thesis
    by auto
qed

lemma for_windows_result:
  assumes "for_windows L a n windows all_windows w = (Inr result, w')"
    and "\<forall>window\<in>set windows. fst window \<le> snd window"
  shows "\<exists>reports.
           fetched_reports (http w) (http_calls w) (nat (arg_max_polls a)) (length windows) =
             Some reports \<and>
           result = all_windows @ map2 (outcome_of L) windows reports \<and>
           http w' = http w \<and> files_written w' = files_written w"
  using assms
proof (induction windows arbitrary: n all_windows w)
  case Nil
  then show ?case by simp
next
  case (Cons window rest)
  obtain w_start w_end where win: "window = (w_start, w_end)"
    by (cases window)
  let ?line = "[CHR 0x0A] @ ''=== Data Window '' @ str_int n @ '': '' @
              isoformat L w_start @ '' to '' @ isoformat L w_end @ '' ===''"
  obtain p1 w1 where p1: "print L ?line w = (p1, w1)"
    by (cases "print L ?line w")
  from Cons.prems(1) win p1 obtain u1 where u1: "p1 = Inr u1"
    by (cases p1) simp_all
  obtain r w2 where f: "fetch_audit_window L w_start w_end
      (arg_sleep a) (arg_poll_interval a) (arg_max_polls a) w1 = (r, w2)"
    by (cases "fetch_audit_window L w_start w_end
      (arg_sleep a) (arg_poll_interval a) (arg_max_polls a) w1")
  from Cons.prems(1) win p1 u1 f obtain window_data where r: "r = Inr window_data"
    by (cases r) simp_all
  from Cons.prems(2) win have le: "w_start \<le> w_end"
    by simp
  note f1 = print_frame[OF p1]
  from fetch_audit_window_result[OF f[unfolded r] le] f1
  obtain report_data
    where rep: "fetched_report (http w) (Suc (http_calls w)) (nat (arg_max_polls a)) =
        Some (http_calls w2 - 1, report_data)"
      and more: "Suc (http_calls w) < http_calls w2"
      and out: "window_data = outcome_of L (w_start, w_end) report_data"
      and net2: "http w2 = http w" and files2: "files_written w2 = files_written w"
    by auto
  from Cons.prems(1) win p1 u1 f r
  have rec: "for_windows L a (n + 1) rest (all_windows @ [window_data]) w2 = (Inr result, w')"
    by simp
  from Cons.prems(2) have "\<forall>window\<in>set rest. fst window \<le> snd window"
    by simp
  from Cons.IH[OF rec this] net2 obtain reports
    where reps: "fetched_reports (http w) (http_calls w2)
        (nat (arg_max_polls a)) (length rest) = Some reports"
      and res: "result = (all_windows @ [window_data]) @ map2 (outcome_of L) rest reports"
      and net': "http w' = http w" and files': "files_written w' = files_written w2"
    by auto
  have "Suc (http_calls w2 - 1) = http_calls w2"
    using more by simp
  with rep reps
  have "fetched_reports (http w) (http_calls w) (nat (arg_max_polls a))
      (length (window # rest)) = Some (report_data # reports)"
    by simp
  moreover have "result = all_windows @
      map2 (outcome_of L) (window # rest) (report_data # reports)"
    using res out win by simp
  ultimately show ?case
    using net' files' files2 by auto
qed

lemma fetched_reports_length:
  "fetched_reports net n budget windows = Some reports \<Longrightarrow>
   length reports = windows \<and>
   (\<forall>report_data\<in>set reports. embedded_status report_data = Inr (JStr ''COMPLETED''))"
proof (induction windows arbitrary: n reports)
  case 0
  then show ?case by simp
next
  case (Suc windows)
  from Suc.prems obtain m body rest
    where first: "fetched_report net (Suc n) budget = Some (m, body)"
      and rest: "fetched_reports net (Suc m) budget windows = Some rest"
      and reports: "reports = body # rest"
    by (auto split: option.splits)
  from Suc.IH[OF rest] fetched_report_completed[OF first] reports show ?case
    by simp
qed

lemma tiles_member:
  assumes "tiles s ws e" and "window \<in> set ws"
  shows "fst window \<le> snd window"
proof -
  from assms(2) obtain i where "i < length ws" "ws ! i = window"
    by (auto simp add: in_set_conv_nth)
  with tiles_nth[OF assms(1), of i] show ?thesis by simp
qed

text \<open>The whole trace of the end-to-end example.\<close>
lemma example_run:
  "main example_lib example_args (example_world example_server) =
     (Inr (),
      \<lparr>today = 738886, http = example_server, http_calls = 2,
       trace =
         [Print ''Exporting AUDIT data from 2024-01-01 to 2024-01-01...'',
          SessionCreated,
          Print ([CHR 0x0A] @ ''=== Data Window 1: 2024-01-01 to 2024-01-01 ===''),
          Print ''Requesting AUDIT report from 2024-01-01 to 2024-01-01...'',
          HttpPost ''https://api.veracode.com/appsec/v1/analytics/report''
            [(''report_type'', ''AUDIT''), (''start_date'', ''2024-01-01'')],
          Print ''  Report id: r1'',
          HttpGet ''https://api.veracode.com/appsec/v1/analytics/report/r1'',
          Print ''  Poll 1: status=COMPLETED'',
          Print ''  Report completed and retrieved.'',
          Sleep 1,
          FileWrite ''veracode_audit_2024-01-01_to_2024-01-01.json''
            (example_dumps (JList [JObj [(''window_start'', JStr ''2024-01-01''),
                                         (''window_end'', JStr ''2024-01-01''),
                                         (''report'', completed_body)]])),
          Print ([CHR 0x0A] @ ''Done. Saved 1 window(s) to '' @
                 ''veracode_audit_2024-01-01_to_2024-01-01.json'')]\<rparr>)"
  by (simp add: main_def to_date_def resolve_end_date_def example_args_def example_lib_def
      example_world_def example_server_def example_isoformat_def window_eval
      fetch_audit_window_def build_audit_payload_def request_report_def exchange_def
      emit_def print_def print_error_def ascii_text_def wait_for_report_def poll_once_def
      get_report_once_def embedded_status_def completed_body_def report_url_def
      BASE_URL_def poll_line_def time_sleep_def window_outcome_def out_file_name_def
      str_int_def str_nat.simps DEFAULT_POLL_INTERVAL_def DEFAULT_MAX_POLLS_def upto_rec1)

subsection \<open>C9: the output file\<close>

text \<open>
  Claim C9. For every successful run of \<open>main\<close> with resolved dates \<open>(start, end)\<close>, the
  run writes exactly one file. Its name is "veracode_audit_<start>_to_<end>.json" with the
  two dates as \<open>str\<close> renders them, and its content is what \<open>json.dump\<close> with
  \<open>indent=2\<close> writes for the list that holds, for each window of
  \<open>date_iteration_windows(start, end)\<close> in order, the object with \<open>window_start\<close>,
  \<open>window_end\<close> and \<open>report\<close>. The reports are the ones the network gave this run: for
  each window in turn, after its submission, the body of the first status fetch that
  reports COMPLETED.
\<close>
theorem main_writes_report_file:
  assumes "main L a w = (Inr (), w')"
    and "to_date L (arg_start_date a) = Inr start_date"
    and "resolve_end_date L a w = Inr end_date"
  shows "\<exists>reports.
           fetched_reports (http w) (http_calls w) (nat (arg_max_polls a))
             (length (fst (date_iteration_windows start_date end_date))) = Some reports \<and>
           length reports = length (fst (date_iteration_windows start_date end_date)) \<and>
           (\<forall>report_data\<in>set reports.
              embedded_status report_data = Inr (JStr ''COMPLETED'')) \<and>
           files_written w' = files_written w @
             [FileWrite
                (''veracode_audit_'' @ isoformat L start_date @ ''_to_'' @
                 isoformat L end_date @ ''.json'')
                (json_dump_indent L 2 (JList (map2 (outcome_of L)
                   (fst (date_iteration_windows start_date end_date)) reports)))]"
proof -
  from assms have le: "start_date \<le> end_date"
    by (cases "start_date > end_date") (simp_all add: main_def)
  let ?line = "''Exporting AUDIT data from '' @ isoformat L start_date @
              '' to '' @ isoformat L end_date @ ''...''"
  obtain p1 w1 where p1: "print L ?line w = (p1, w1)"
    by (cases "print L ?line w")
  from assms le p1 obtain u1 where u1: "p1 = Inr u1"
    by (cases p1) (simp_all add: main_def)
  obtain windows generator_error
    where gen: "date_iteration_windows start_date end_date = (windows, generator_error)"
    by (cases "date_iteration_windows start_date end_date")
  let ?w2 = "emit SessionCreated w1"
  note f1 = print_frame[OF p1]
  have w2: "files_written ?w2 = files_written w" "http ?w2 = http w"
      "http_calls ?w2 = http_calls w"
    using f1 by (simp_all add: files_written_def emit_def)
  obtain r w3 where loop: "for_windows L a 1 windows [] ?w2 = (r, w3)"
    by (cases "for_windows L a 1 windows [] ?w2")
  from assms le p1 u1 gen loop obtain all_windows where r: "r = Inr all_windows"
    by (cases r) (simp_all add: main_def Let_def)
  from assms le p1 u1 gen loop r have ge: "generator_error = None"
    by (cases generator_error) (simp_all add: main_def Let_def)
  let ?w4 = "emit (FileWrite (out_file_name L start_date end_date)
                 (json_dump_indent L 2 (JList all_windows))) w3"
  from assms le p1 u1 gen loop r ge
  have last: "print L ([CHR 0x0A] @ ''Done. Saved '' @ str_int (int (length all_windows)) @
                '' window(s) to '' @ out_file_name L start_date end_date) ?w4 = (Inr (), w')"
    by (simp add: main_def Let_def)
  from gen ge le have "tiles start_date windows end_date"
    by (simp add: date_iteration_windows_def windows_from_tiles)
  then have "\<forall>window\<in>set windows. fst window \<le> snd window"
    using tiles_member by blast
  from for_windows_result[OF loop[unfolded r] this] w2 obtain reports
    where reps: "fetched_reports (http w) (http_calls w) (nat (arg_max_polls a))
        (length windows) = Some reports"
      and res: "all_windows = map2 (outcome_of L) windows reports"
      and fw: "files_written w3 = files_written w"
    by auto
  have "files_written ?w4 = files_written w @
      [FileWrite (out_file_name L start_date end_date)
         (json_dump_indent L 2 (JList all_windows))]"
    using fw by (simp add: files_written_def emit_def)
  with print_frame[OF last] res
  have "files_written w' = files_written w @
      [FileWrite (out_file_name L start_date end_date)
         (json_dump_indent L 2 (JList (map2 (outcome_of L) windows reports)))]"
    by simp
  with reps fetched_reports_length[OF reps] gen show ?thesis
    unfolding out_file_name_def by auto
qed

text \<open>The end-to-end example: one window, one report, one file.\<close>
theorem main_writes_report_file_witness:
  "to_date example_lib (arg_start_date example_args) = Inr 738886 \<and>
   resolve_end_date example_lib example_args (example_world example_server) = Inr 738886 \<and>
   fst (main example_lib example_args (example_world example_server)) = Inr () \<and>
   fst (date_iteration_windows 738886 738886) = [(738886, 738886)] \<and>
   fetched_reports example_server 0 (nat DEFAULT_MAX_POLLS) 1 = Some [completed_body] \<and>
   files_written (snd (main example_lib example_args (example_world example_server))) =
     [FileWrite ''veracode_audit_2024-01-01_to_2024-01-01.json''
        (json_dump_indent example_lib 2
           (JList [outcome_of example_lib (738886, 738886) completed_body]))]"
proof -
  let ?w' = "snd (main example_lib example_args (example_world example_server))"
  have run: "main example_lib example_args (example_world example_server) = (Inr (), ?w')"
    by (simp add: example_run)
  have st: "to_date example_lib (arg_start_date example_args) = Inr 738886"
    by (simp add: to_date_def example_args_def example_lib_def)
  have en: "resolve_end_date example_lib example_args (example_world example_server) =
      Inr 738886"
    by (simp add: resolve_end_date_def to_date_def example_args_def example_lib_def)
  have wins: "fst (date_iteration_windows 738886 738886) = [(738886, 738886)]"
    by (simp add: window_eval)
  have world: "http (example_world example_server) = example_server"
    "http_calls (example_world example_server) = 0"
    "files_written (example_world example_server) = []"
    "arg_max_polls example_args = DEFAULT_MAX_POLLS"
    by (simp_all add: example_world_def files_written_def example_args_def)
  have fetched: "fetched_reports example_server 0 (nat DEFAULT_MAX_POLLS) 1 =
      Some [completed_body]"
    by (simp add: DEFAULT_MAX_POLLS_def eval_nat_numeral example_server_def
        reports_pending_def pending_status_def embedded_status_def completed_body_def)
  from main_writes_report_file[OF run st en] wins world fetched
  have "files_written ?w' =
     [FileWrite (''veracode_audit_'' @ isoformat example_lib 738886 @ ''_to_'' @
                 isoformat example_lib 738886 @ ''.json'')
        (json_dump_indent example_lib 2
           (JList (map2 (outcome_of example_lib) [(738886, 738886)] [completed_body])))]"
    by auto
  then have "files_written ?w' =
     [FileWrite ''veracode_audit_2024-01-01_to_2024-01-01.json''
        (json_dump_indent example_lib 2
           (JList [outcome_of example_lib (738886, 738886) completed_body]))]"
    by (simp add: example_lib_def example_isoformat_def)
  moreover have "fst (main example_lib example_args (example_world example_server)) = Inr ()"
    by (simp add: example_run)
  ultimately show ?thesis
    using st en wins fetched by simp
qed

end
